theory Spec2Isabelle
  imports Complex_Main
begin

section \<open>Command history navigation\<close>

subsection \<open>The console input (ConsolePanel in RightPanel.tsx)\<close>

text \<open>
  \<^verbatim>\<open>ConsolePanel\<close> keeps \<^verbatim>\<open>inputValue\<close> (the field \<open>buffer\<close> here),
  \<^verbatim>\<open>commandHistory\<close>, \<^verbatim>\<open>historyIndex\<close> and \<^verbatim>\<open>tempUserCode\<close> as its own state, and
  \<^verbatim>\<open>handleKeyDown\<close> is created anew at every render, so it reads the current values.
  The cursor "none" is \<open>-1\<close>, and the history is most-recent-first.
\<close>

record hist_state =
  buffer :: string
  commandHistory :: "string list"
  historyIndex :: int
  tempUserCode :: string

text \<open>JavaScript's \<^verbatim>\<open>xs[i]\<close>: \<^verbatim>\<open>undefined\<close> (here \<open>None\<close>) outside the array.\<close>

definition js_index :: "'a list \<Rightarrow> int \<Rightarrow> 'a option" where
  "js_index xs i = (if 0 \<le> i \<and> i < int (length xs) then Some (xs ! nat i) else None)"

text \<open>
  The effect of the component:
  \<^verbatim>\<open>if (historyIndex > -1 && inputValue !== commandHistory[historyIndex]) setHistoryIndex(-1)\<close>.
  A string is never \<^verbatim>\<open>===\<close> to \<^verbatim>\<open>undefined\<close>.
\<close>

definition cursorEffect :: "hist_state \<Rightarrow> hist_state" where
  "cursorEffect s =
     (if historyIndex s > -1 \<and> Some (buffer s) \<noteq> js_index (commandHistory s) (historyIndex s)
      then s\<lparr>historyIndex := -1\<rparr> else s)"

text \<open>
  The ArrowUp branch of \<^verbatim>\<open>handleKeyDown\<close>. Setting the buffer to \<^verbatim>\<open>undefined\<close> (an index outside the
  history, which no state with \<open>-1 \<le> historyIndex\<close> reaches) shows as the empty text.
\<close>

definition arrowUp :: "hist_state \<Rightarrow> hist_state" where
  "arrowUp s =
     (if length (commandHistory s) = 0 then s
      else
        let s1 = (if historyIndex s = -1 then s\<lparr>tempUserCode := buffer s\<rparr> else s);
            newIndex = min (historyIndex s + 1) (int (length (commandHistory s)) - 1)
        in s1\<lparr>historyIndex := newIndex,
               buffer := (case js_index (commandHistory s) newIndex of
                            Some c \<Rightarrow> c | None \<Rightarrow> [])\<rparr>)"

text \<open>The ArrowDown branch of \<^verbatim>\<open>handleKeyDown\<close>.\<close>

definition arrowDown :: "hist_state \<Rightarrow> hist_state" where
  "arrowDown s =
     (if historyIndex s = -1 then s
      else
        let newIndex = historyIndex s - 1
        in if newIndex < 0
           then s\<lparr>historyIndex := newIndex, buffer := tempUserCode s\<rparr>
           else s\<lparr>historyIndex := newIndex,
                   buffer := (case js_index (commandHistory s) newIndex of
                                Some c \<Rightarrow> c | None \<Rightarrow> [])\<rparr>)"

text \<open>One key press: the handler, then the effect on the re-rendered state.\<close>

definition older :: "hist_state \<Rightarrow> hist_state" where
  "older s = cursorEffect (arrowUp s)"

definition newer :: "hist_state \<Rightarrow> hist_state" where
  "newer s = cursorEffect (arrowDown s)"

subsection \<open>The editor buffer in App\<close>

datatype language = LangR | LangPython

record app_state =
  language :: language
  rCode :: string
  pythonCode :: string
  editorCode :: string
  appHistory :: "string list"
  appHistoryIndex :: int
  appTempUserCode :: string

text \<open>
  \<^verbatim>\<open>handleCodeChange\<close>: the new text goes to the buffer of the active language and to
  the editor.
\<close>

definition handleCodeChange :: "string \<Rightarrow> app_state \<Rightarrow> app_state" where
  "handleCodeChange newCode s =
     (if language s = LangR then s\<lparr>rCode := newCode\<rparr> else s\<lparr>pythonCode := newCode\<rparr>)
       \<lparr>editorCode := newCode\<rparr>"

text \<open>
  The effect of App, with dependencies \<^verbatim>\<open>[language, rCode, pythonCode]\<close>: it runs after
  a render in which one of the three differs from the render before.
\<close>

definition appEffect :: "app_state \<Rightarrow> app_state" where
  "appEffect s =
     s\<lparr>editorCode := (if language s = LangR then rCode s else pythonCode s),
       appHistory := [], appHistoryIndex := -1, appTempUserCode := []\<rparr>"

definition depsChanged :: "app_state \<Rightarrow> app_state \<Rightarrow> bool" where
  "depsChanged old new \<longleftrightarrow>
     language old \<noteq> language new \<or> rCode old \<noteq> rCode new \<or> pythonCode old \<noteq> pythonCode new"

definition rerender :: "app_state \<Rightarrow> app_state \<Rightarrow> app_state" where
  "rerender old new = (if depsChanged old new then appEffect new else new)"

text \<open>
  The editor's \<^verbatim>\<open>onChange\<close> (EditorPanel.tsx): the cursor is reset, then
  \<^verbatim>\<open>setCode(value || "")\<close>, which is \<^verbatim>\<open>handleCodeChange\<close>; the effects follow.
\<close>

definition editorOnChange :: "string option \<Rightarrow> app_state \<Rightarrow> app_state" where
  "editorOnChange v s =
     (let s1 = (if appHistoryIndex s \<noteq> -1 then s\<lparr>appHistoryIndex := -1\<rparr> else s);
          s2 = handleCodeChange (case v of None \<Rightarrow> [] | Some t \<Rightarrow> t) s1
      in rerender s s2)"

text \<open>The language buttons: \<^verbatim>\<open>setLanguage\<close>, then the effects.\<close>

definition setLanguage :: "language \<Rightarrow> app_state \<Rightarrow> app_state" where
  "setLanguage l s = rerender s (s\<lparr>language := l\<rparr>)"

text \<open>\<^verbatim>\<open>String.prototype.trim\<close> and \<^verbatim>\<open>trimEnd\<close> on the ASCII white space.\<close>

definition js_whitespace :: "char \<Rightarrow> bool" where
  "js_whitespace c \<longleftrightarrow> c \<in> set [CHR '' '', CHR 0x09, CHR 0x0A, CHR 0x0B, CHR 0x0C, CHR 0x0D]"

definition trimEnd :: "string \<Rightarrow> string" where
  "trimEnd t = rev (dropWhile js_whitespace (rev t))"

definition trim :: "string \<Rightarrow> string" where
  "trim t = trimEnd (dropWhile js_whitespace t)"

text \<open>
  \<^verbatim>\<open>handleRun\<close>: the second component is the text handed to the backend's
  \<^verbatim>\<open>runCode\<close>, \<open>None\<close> when nothing is run.
\<close>

definition handleRun :: "app_state \<Rightarrow> app_state \<times> string option" where
  "handleRun s =
     (let trimmedCode = trim (editorCode s)
      in if trimmedCode \<noteq> []
         then (s\<lparr>appHistory := trimmedCode # filter (\<lambda>c. c \<noteq> trimmedCode) (appHistory s),
                  appHistoryIndex := -1, appTempUserCode := []\<rparr>, Some trimmedCode)
         else (s, None))"

text \<open>The console input's \<^verbatim>\<open>onChange\<close> (RightPanel.tsx): \<^verbatim>\<open>setInputValue\<close>, then the effect.\<close>

definition consoleOnChange :: "string \<Rightarrow> hist_state \<Rightarrow> hist_state" where
  "consoleOnChange v s = cursorEffect (s\<lparr>buffer := v\<rparr>)"

subsection \<open>History recall in the editor (EditorPanel.tsx)\<close>

text \<open>
  \<^verbatim>\<open>EditorPanel\<close> holds no history state: it receives \<^verbatim>\<open>code\<close>, \<^verbatim>\<open>commandHistory\<close>,
  \<^verbatim>\<open>historyIndex\<close> and \<^verbatim>\<open>tempUserCode\<close> from App as props, and writes through
  \<^verbatim>\<open>setTempUserCode\<close>, \<^verbatim>\<open>setHistoryIndex\<close> and \<^verbatim>\<open>setCode\<close>, which is App's
  \<^verbatim>\<open>handleCodeChange\<close>.
\<close>

record editor_props =
  p_code :: string
  p_commandHistory :: "string list"
  p_historyIndex :: int
  p_tempUserCode :: string

definition props_of :: "app_state \<Rightarrow> editor_props" where
  "props_of s =
     \<lparr>p_code = editorCode s, p_commandHistory = appHistory s,
      p_historyIndex = appHistoryIndex s, p_tempUserCode = appTempUserCode s\<rparr>"

text \<open>
  The effect of \<^verbatim>\<open>EditorPanel\<close>:
  \<^verbatim>\<open>if (historyIndex > -1 && code !== commandHistory[historyIndex]) setHistoryIndex(-1)\<close>.
\<close>

definition editorEffect :: "app_state \<Rightarrow> app_state" where
  "editorEffect s =
     (if appHistoryIndex s > -1
         \<and> Some (editorCode s) \<noteq> js_index (appHistory s) (appHistoryIndex s)
      then s\<lparr>appHistoryIndex := -1\<rparr> else s)"

text \<open>
  The effects after a key handler took the state from \<open>old\<close> to \<open>new\<close>: the effect of
  the panel and the effect of App run on the render of \<open>new\<close>, and the effect of the
  panel runs again on the render that their updates cause.
\<close>

definition settle :: "app_state \<Rightarrow> app_state \<Rightarrow> app_state" where
  "settle old new = editorEffect (rerender old (editorEffect new))"

text \<open>
  \<^verbatim>\<open>handleEditorDidMount\<close> is the \<^verbatim>\<open>onMount\<close> callback: it runs once, when the editor
  is mounted, and the two \<^verbatim>\<open>onKeyDown\<close> handlers that it registers read the props of
  that render (\<open>cl\<close>) at every later key press. The handlers below are those for ArrowUp
  on the first line and ArrowDown on the last line. Setting the code to \<^verbatim>\<open>undefined\<close>
  (an index outside the history, which no props with \<open>-1 \<le> historyIndex\<close> reach) shows
  as the empty text.
\<close>

definition editorArrowUp :: "editor_props \<Rightarrow> app_state \<Rightarrow> app_state" where
  "editorArrowUp cl s =
     (if length (p_commandHistory cl) = 0 then s
      else
        let s1 = (if p_historyIndex cl = -1 then s\<lparr>appTempUserCode := p_code cl\<rparr> else s);
            newIndex = min (p_historyIndex cl + 1) (int (length (p_commandHistory cl)) - 1);
            s2 = s1\<lparr>appHistoryIndex := newIndex\<rparr>;
            s3 = handleCodeChange
                   (case js_index (p_commandHistory cl) newIndex of Some c \<Rightarrow> c | None \<Rightarrow> []) s2
        in settle s s3)"

definition editorArrowDown :: "editor_props \<Rightarrow> app_state \<Rightarrow> app_state" where
  "editorArrowDown cl s =
     (if p_historyIndex cl = -1 then s
      else
        let newIndex = p_historyIndex cl - 1;
            s1 = s\<lparr>appHistoryIndex := newIndex\<rparr>;
            s2 = (if newIndex < 0 then handleCodeChange (p_tempUserCode cl) s1
                  else handleCodeChange
                         (case js_index (p_commandHistory cl) newIndex of
                            Some c \<Rightarrow> c | None \<Rightarrow> []) s1)
        in settle s s2)"

text \<open>
  The state in which App starts, for the initial R and Python sources of constants.ts
  (the R source begins with a newline).
\<close>

definition app_start :: "string \<Rightarrow> string \<Rightarrow> app_state" where
  "app_start r0 p0 =
     \<lparr>language = LangR, rCode = r0, pythonCode = p0, editorCode = r0, appHistory = [],
      appHistoryIndex = -1, appTempUserCode = []\<rparr>"

section \<open>Data shared by the two backends (types.ts)\<close>

datatype line_kind = Input | Stdout | Stderr | System

record console_output =
  ctype :: line_kind
  message :: string

text \<open>
  A JavaScript number: a finite double (its value as a real), \<^verbatim>\<open>NaN\<close> or an infinity.
\<close>

datatype js_number = Finite real | NaN | PosInfinity | NegInfinity

text \<open>
  A scalar of a table cell; \<open>Undefined\<close> is what JavaScript reads from a missing key
  or index.
\<close>

datatype cell = Null | Undefined | Num js_number | Str string | Bool bool

type_synonym row = "string \<rightharpoonup> cell"

text \<open>
  \<^verbatim>\<open>TableData\<close>. \<open>NameOnly\<close> is the object \<^verbatim>\<open>{ name }\<close> that \<^verbatim>\<open>{ name, ...v }\<close> builds
  when \<^verbatim>\<open>v\<close> has no properties of its own to spread.
\<close>

datatype table_data =
  Table (tname: string) (tdata: "row list") (tcolumns: "string list")
| NameOnly string

record plot_data =
  plot_id :: nat
  dataUrl :: string

text \<open>The id is \<^verbatim>\<open>plot-N\<close>; the record keeps \<open>N\<close>.\<close>

section \<open>The Python backend (usePyodide)\<close>

subsection \<open>The interpreter\<close>

text \<open>
  What the hook reads from a Python object: the name of its type, \<^verbatim>\<open>repr\<close> (\<open>None\<close>
  when it raises), the two \<^verbatim>\<open>isinstance\<close> tests, and what \<^verbatim>\<open>to_json(orient='split')\<close>
  does: \<open>NoAttr\<close> when the object has no \<^verbatim>\<open>to_json\<close>, \<open>Throws msg\<close> when the call
  raises with that message, \<open>Split columns index data\<close> when it returns the JSON text of
  a frame with these columns, index and data.
\<close>

datatype to_json_result =
  NoAttr | Throws string | Split "string list" "cell list" "cell list list"

record py_object =
  type_name :: string
  repr_of :: "string option"
  isDataFrame :: bool
  isFigure :: bool
  to_json :: to_json_result

text \<open>
  The interpreter: the global scope in dictionary order, the open figures in the order
  of \<^verbatim>\<open>plt.get_fignums()\<close> (each figure stands for the base64 PNG that \<^verbatim>\<open>savefig\<close>
  gives), \<^verbatim>\<open>dir(__builtins__)\<close>, and whether the reflection script of
  \<^verbatim>\<open>updateEnvironment\<close> raises.
\<close>

record py_interp =
  globals :: "(string \<times> py_object) list"
  fignums :: "string list"
  builtins :: "string list"
  env_script_raises :: bool

text \<open>
  Running a source text: the interpreter afterwards, the messages the batched stdout and
  stderr handlers received, and whether \<^verbatim>\<open>runPythonAsync\<close> threw. The meaning of a source
  text is a function from the interpreter to this outcome.
\<close>

record py_outcome =
  after :: py_interp
  emitted :: "console_output list"
  raised :: bool

type_synonym py_code = "py_interp \<Rightarrow> py_outcome"

record py_env_object =
  ptype :: string
  prepr :: string
  is_dataframe :: bool
  is_figure :: bool

text \<open>
  The state of the hook. \<open>pyodide\<close> says whether the module variable is set;
  \<open>interpCalls\<close> counts the calls of \<^verbatim>\<open>runPythonAsync\<close>.
\<close>

record py_backend =
  pyodide :: bool
  isLoading :: bool
  consoleOutput :: "console_output list"
  environment :: "(string \<times> py_env_object) list"
  tableData :: "table_data option"
  plots :: "plot_data list"
  plotIdCounter :: nat
  interp :: py_interp
  interpCalls :: nat

subsection \<open>updateEnvironment\<close>

definition vars_to_ignore :: "string list" where
  "vars_to_ignore =
     [''__name__'', ''__doc__'', ''__package__'', ''__loader__'', ''__spec__'',
      ''__annotations__'', ''__builtins__'', ''_vars'', ''_builtins'', ''_scope'',
      ''_vars_to_ignore'', ''json'', ''pd'', ''sys'', ''pyodide'', ''plt'', ''Figure'']"

definition startswith :: "string \<Rightarrow> string \<Rightarrow> bool" where
  "startswith t p \<longleftrightarrow> take (length p) t = p"

text \<open>\<^verbatim>\<open>if len(repr_val) > 100: repr_val = repr_val[:100] + '...'\<close>\<close>

definition truncate_repr :: "string \<Rightarrow> string" where
  "truncate_repr r = (if length r > 100 then take 100 r @ ''...'' else r)"

definition repr_val :: "py_object \<Rightarrow> string" where
  "repr_val v =
     truncate_repr (case repr_of v of Some r \<Rightarrow> r | None \<Rightarrow> ''<'' @ type_name v @ ''>'')"

definition shown :: "py_interp \<Rightarrow> string \<times> py_object \<Rightarrow> bool" where
  "shown i nv \<longleftrightarrow>
     fst nv \<notin> set (vars_to_ignore @ builtins i) \<and> \<not> startswith (fst nv) ''_''
     \<and> type_name (snd nv) \<noteq> ''module''"

definition env_entry :: "string \<times> py_object \<Rightarrow> string \<times> py_env_object" where
  "env_entry nv =
     (fst nv, \<lparr>ptype = type_name (snd nv), prepr = repr_val (snd nv),
               is_dataframe = isDataFrame (snd nv), is_figure = isFigure (snd nv)\<rparr>)"

text \<open>The loop over \<^verbatim>\<open>_scope.items()\<close>: the value of \<^verbatim>\<open>_vars\<close> at the end.\<close>

definition env_script :: "py_interp \<Rightarrow> (string \<times> py_env_object) list" where
  "env_script i = map env_entry (filter (shown i) (globals i))"

text \<open>
  \<^verbatim>\<open>updateEnvironment\<close>: nothing without the interpreter; an error of the script is
  caught and leaves the snapshot as it was.
\<close>

definition updateEnvironment :: "py_backend \<Rightarrow> py_backend" where
  "updateEnvironment s =
     (if \<not> pyodide s then s
      else if env_script_raises (interp s)
        then s\<lparr>interpCalls := interpCalls s + 1\<rparr>
        else s\<lparr>interpCalls := interpCalls s + 1, environment := env_script (interp s)\<rparr>)"

text \<open>At most 100 characters, or 100 characters followed by the three dots.\<close>

definition capped_repr :: "string \<Rightarrow> bool" where
  "capped_repr t \<longleftrightarrow> length t \<le> 100 \<or> (length t = 103 \<and> drop 100 t = ''...'')"

text \<open>The text that \<^verbatim>\<open>repr_val\<close> holds before the cap.\<close>

definition full_repr :: "py_object \<Rightarrow> string" where
  "full_repr v = (case repr_of v of Some r \<Rightarrow> r | None \<Rightarrow> ''<'' @ type_name v @ ''>'')"

subsection \<open>runCode\<close>

text \<open>\<^verbatim>\<open>plt.close('all')\<close>\<close>

definition close_all :: "py_interp \<Rightarrow> py_interp" where
  "close_all i = i\<lparr>fignums := []\<rparr>"

text \<open>The handlers of \<^verbatim>\<open>setStdout\<close> and \<^verbatim>\<open>setStderr\<close> drop an empty message.\<close>

definition batched :: "console_output list \<Rightarrow> console_output list" where
  "batched ms = filter (\<lambda>m. message m \<noteq> []) ms"

text \<open>\<^verbatim>\<open>newPlots.map(p => ({ id: `plot-${plotIdCounter++}`, ... }))\<close>\<close>

fun plotObjects :: "nat \<Rightarrow> string list \<Rightarrow> plot_data list" where
  "plotObjects c [] = []"
| "plotObjects c (p # ps) =
     \<lparr>plot_id = c, dataUrl = ''data:image/png;base64,'' @ p\<rparr> # plotObjects (Suc c) ps"

text \<open>
  The part of the \<^verbatim>\<open>try\<close> block after the source has run: the open figures are
  rendered (they stay open) and the plot list is replaced or extended.
\<close>

definition capturePlots :: "bool \<Rightarrow> py_backend \<Rightarrow> py_backend" where
  "capturePlots isInteractive s =
     (let newPlots = fignums (interp s);
          objs = plotObjects (plotIdCounter s) newPlots;
          s1 = s\<lparr>interpCalls := interpCalls s + 1,
                 plotIdCounter := plotIdCounter s + length newPlots\<rparr>
      in if isInteractive then s1\<lparr>plots := objs\<rparr>
         else if length objs > 0 then s1\<lparr>plots := plots s1 @ objs\<rparr>
         else s1)"

text \<open>
  \<^verbatim>\<open>runCode(code, options)\<close>: \<open>code\<close> is the text, \<open>sem\<close> its meaning, \<open>opts\<close> the
  optional \<^verbatim>\<open>isInteractive\<close>.
\<close>

definition executed :: "py_code \<Rightarrow> bool \<Rightarrow> py_backend \<Rightarrow> py_backend \<times> bool" where
  "executed sem isInteractive s =
     (let s1 = (if \<not> isInteractive
                then s\<lparr>interp := close_all (interp s), interpCalls := interpCalls s + 1\<rparr>
                else s);
          out = sem (interp s1)
      in (s1\<lparr>interp := after out, interpCalls := interpCalls s1 + 1,
              consoleOutput := consoleOutput s1 @ batched (emitted out)\<rparr>, raised out))"

definition runCode :: "string \<Rightarrow> py_code \<Rightarrow> bool option \<Rightarrow> py_backend \<Rightarrow> py_backend" where
  "runCode code sem opts s =
     (if \<not> pyodide s \<or> isLoading s then s
      else
        let s1 = s\<lparr>consoleOutput := consoleOutput s @ [\<lparr>ctype = Input, message = code\<rparr>]\<rparr>;
            isInteractive = (case opts of None \<Rightarrow> False | Some b \<Rightarrow> b);
            (s2, threw) = executed sem isInteractive s1;
            s3 = (if threw then s2 else capturePlots isInteractive s2)
        in updateEnvironment s3)"

text \<open>\<^verbatim>\<open>options?.isInteractive ?? false\<close>\<close>

definition isInteractive_of :: "bool option \<Rightarrow> bool" where
  "isInteractive_of opts = (case opts of None \<Rightarrow> False | Some b \<Rightarrow> b)"

text \<open>
  The outcome of the source as \<^verbatim>\<open>runCode\<close> runs it: on the interpreter as it is for an
  interactive call, after \<^verbatim>\<open>plt.close('all')\<close> otherwise.
\<close>

definition py_ran :: "py_code \<Rightarrow> bool option \<Rightarrow> py_backend \<Rightarrow> py_outcome" where
  "py_ran sem opts s =
     sem (if isInteractive_of opts then interp s else close_all (interp s))"

definition clearPlots :: "py_backend \<Rightarrow> py_backend" where
  "clearPlots s = s\<lparr>plots := []\<rparr>"

definition clearTable :: "py_backend \<Rightarrow> py_backend" where
  "clearTable s = s\<lparr>tableData := None\<rparr>"

definition clearConsole :: "py_backend \<Rightarrow> py_backend" where
  "clearConsole s = s\<lparr>consoleOutput := []\<rparr>"

subsection \<open>viewObjectByName\<close>

text \<open>The test \<^verbatim>\<open>/^[a-zA-Z0-9_]+$/\<close>, and with the dot for R.\<close>

definition word_char :: "char \<Rightarrow> bool" where
  "word_char c \<longleftrightarrow>
     (let n = (of_char c :: nat)
      in (97 \<le> n \<and> n \<le> 122) \<or> (65 \<le> n \<and> n \<le> 90) \<or> (48 \<le> n \<and> n \<le> 57) \<or> n = 95)"

definition py_valid_name :: "string \<Rightarrow> bool" where
  "py_valid_name n \<longleftrightarrow> n \<noteq> [] \<and> list_all word_char n"

definition r_valid_name :: "string \<Rightarrow> bool" where
  "r_valid_name n \<longleftrightarrow> n \<noteq> [] \<and> list_all (\<lambda>c. word_char c \<or> c = CHR ''.'') n"

definition stderr_line :: "string \<Rightarrow> console_output" where
  "stderr_line m = \<lparr>ctype = Stderr, message = m\<rparr>"

text \<open>
  One row of the table: \<^verbatim>\<open>{ '#': parsed.index[i] }\<close>, then \<^verbatim>\<open>rowObj[col] = row[j]\<close>
  for the columns in order.
\<close>

text \<open>
  The assignment \<^verbatim>\<open>obj[k] = v\<close> on a plain object: it stores the property, except
  for the key \<^verbatim>\<open>__proto__\<close>, which is the accessor of \<^verbatim>\<open>Object.prototype\<close> and stores
  no property of the object.
\<close>

definition js_set :: "row \<Rightarrow> string \<Rightarrow> cell \<Rightarrow> row" where
  "js_set obj k v = (if k = ''__proto__'' then obj else obj(k \<mapsto> v))"

definition cell_at :: "cell list \<Rightarrow> nat \<Rightarrow> cell" where
  "cell_at xs i = (if i < length xs then xs ! i else Undefined)"

definition rowObj :: "string list \<Rightarrow> cell list \<Rightarrow> cell list \<Rightarrow> nat \<Rightarrow> row" where
  "rowObj cols index r i =
     fold (\<lambda>j obj. js_set obj (cols ! j) (cell_at r j)) [0..<length cols]
       (Map.empty(''#'' \<mapsto> cell_at index i))"

definition split_table :: "string \<Rightarrow> string list \<Rightarrow> cell list \<Rightarrow> cell list list \<Rightarrow> table_data" where
  "split_table n cols index rows =
     Table n (map (\<lambda>i. rowObj cols index (rows ! i) i) [0..<length rows]) (''#'' # cols)"

text \<open>
  What \<^verbatim>\<open>runPythonAsync\<close> gives the hook: it throws, or it returns the value of the
  source when the last statement of the source is an expression, and \<^verbatim>\<open>undefined\<close>
  otherwise; \<open>JsonSplit\<close> is a returned JSON text of a frame.
\<close>

datatype snippet_value =
  NoValue | Raised string | JsonSplit "string list" "cell list" "cell list list"

text \<open>
  The Python snippet of the viewer. Its last statement is the \<^verbatim>\<open>if ... else\<close>
  statement, not an expression, so the value is \<^verbatim>\<open>undefined\<close> in both branches: when
  the name is bound to an object with \<^verbatim>\<open>to_json\<close> the method is called and its result
  is dropped, and only an exception of that call reaches the hook.
\<close>

definition tableJson :: "py_interp \<Rightarrow> string \<Rightarrow> snippet_value" where
  "tableJson i n =
     (case map_of (globals i) n of
        None \<Rightarrow> NoValue
      | Some v \<Rightarrow> (case to_json v of Throws msg \<Rightarrow> Raised msg | _ \<Rightarrow> NoValue))"

text \<open>
  \<^verbatim>\<open>viewObjectByName\<close>, with the branch for a truthy \<^verbatim>\<open>tableJson\<close> as the hook has
  it.
\<close>

definition viewObjectByName :: "string \<Rightarrow> py_backend \<Rightarrow> py_backend" where
  "viewObjectByName n s =
     (if \<not> pyodide s \<or> \<not> py_valid_name n
      then s\<lparr>consoleOutput := consoleOutput s @
                [stderr_line (''Error: Invalid object name for viewer: '' @ n)]\<rparr>
      else
        let s1 = s\<lparr>interpCalls := interpCalls s + 1\<rparr>
        in case tableJson (interp s) n of
             JsonSplit cols index rows \<Rightarrow>
               s1\<lparr>tableData := Some (split_table n cols index rows)\<rparr>
           | NoValue \<Rightarrow>
               s1\<lparr>consoleOutput := consoleOutput s1 @
                 [stderr_line (''Could not view object '' @ [CHR 0x27] @ n @ [CHR 0x27] @ '': Object ''
                    @ [CHR 0x27] @ n @ [CHR 0x27] @ '' is not a DataFrame or does not exist.'')]\<rparr>
           | Raised msg \<Rightarrow>
               s1\<lparr>consoleOutput := consoleOutput s1 @
                 [stderr_line (''Could not view object '' @ [CHR 0x27] @ n @ [CHR 0x27] @ '': ''
                    @ msg)]\<rparr>)"

section \<open>The R backend (useWebR)\<close>

subsection \<open>rObjectToTable\<close>

text \<open>
  The result of \<^verbatim>\<open>toJs()\<close> as far as the hook inspects it: a list with names and
  values, each value with or without an array \<^verbatim>\<open>values\<close>; anything else is \<open>JsOther\<close>.
\<close>

datatype js_vec = JsVec "cell list" | JsNoValues

datatype js_object = JsList "string list" "js_vec list" | JsOther

definition nRows :: "js_vec list \<Rightarrow> nat" where
  "nRows vals = (case vals of JsVec vs # _ \<Rightarrow> length vs | _ \<Rightarrow> 0)"

definition r_cell :: "string list \<Rightarrow> js_vec list \<Rightarrow> nat \<Rightarrow> nat \<Rightarrow> cell" where
  "r_cell cols vals i j =
     (if cols ! j \<noteq> [] \<and> j < length vals
      then (case vals ! j of JsVec vs \<Rightarrow> (if i < length vs then vs ! i else Null)
            | JsNoValues \<Rightarrow> Null)
      else Null)"

definition r_row :: "string list \<Rightarrow> js_vec list \<Rightarrow> nat \<Rightarrow> row" where
  "r_row cols vals i =
     fold (\<lambda>j obj. js_set obj (cols ! j) (r_cell cols vals i j)) [0..<length cols] Map.empty"

definition rObjectToTable :: "js_object \<Rightarrow> (row list \<times> string list) option" where
  "rObjectToTable jsObject =
     (case jsObject of
        JsOther \<Rightarrow> None
      | JsList cols vals \<Rightarrow>
          if length cols = 0 \<or> length vals = 0 then Some ([], cols)
          else if nRows vals = 0 then Some ([], cols)
          else Some (map (r_row cols vals) [0..<nRows vals], cols))"

subsection \<open>The interpreter\<close>

datatype object_type = Function | Variable

text \<open>
  What the R script of \<^verbatim>\<open>updateEnvironment\<close> reads from a binding: \<^verbatim>\<open>class(obj)\<close>,
  \<^verbatim>\<open>is.function(obj)\<close>, \<^verbatim>\<open>names(formals(obj))\<close>, the first line that \<^verbatim>\<open>str\<close> prints,
  \<^verbatim>\<open>is.data.frame(obj)\<close> and the object after \<^verbatim>\<open>toJs()\<close>.
\<close>

record r_object =
  r_class :: "string list"
  is_function :: bool
  formals :: "string list"
  str_line :: string
  is_data_frame :: bool
  toJs :: js_object

record r_interp =
  r_globals :: "(string \<times> r_object) list"
  r_packages :: "(string \<times> string) list"
  r_script_raises :: bool

text \<open>
  \<^verbatim>\<open>captureR\<close>: it returns the captured output (type and data of each message) and the
  images, or throws with a message. An image is the data URL of its canvas, \<open>None\<close>
  when the canvas has no 2d context.
\<close>

datatype capture = Captured "(line_kind \<times> string) list" "string option list" | Threw string

record r_outcome =
  r_after :: r_interp
  r_result :: capture

type_synonym r_code = "r_interp \<Rightarrow> r_outcome"

record env_object =
  objectType :: object_type
  eclass :: "string list"
  estr :: string

record r_backend =
  webR :: bool
  rIsLoading :: bool
  shelter :: bool
  rConsoleOutput :: "console_output list"
  rEnvironment :: "(string \<times> env_object) list"
  rTableData :: "table_data option"
  rPlots :: "plot_data list"
  rPlotIdCounter :: nat
  packages :: "(string \<times> string) list"
  viewableDataFrames :: "(string \<times> row list \<times> string list) list"
  rInterp :: r_interp
  rInterpCalls :: nat

subsection \<open>updateEnvironment\<close>

text \<open>\<^verbatim>\<open>paste(args, collapse = ", ")\<close>\<close>

fun paste_collapse :: "string \<Rightarrow> string list \<Rightarrow> string" where
  "paste_collapse sep [] = []"
| "paste_collapse sep [x] = x"
| "paste_collapse sep (x # y # ys) = x @ sep @ paste_collapse sep (y # ys)"

definition obj_info :: "r_object \<Rightarrow> env_object" where
  "obj_info obj =
     (if is_function obj
      then \<lparr>objectType = Function, eclass = r_class obj,
            estr = ''function('' @ paste_collapse '', '' (formals obj) @ '')''\<rparr>
      else \<lparr>objectType = Variable, eclass = r_class obj, estr = str_line obj\<rparr>)"

text \<open>The loop that fills \<^verbatim>\<open>newEnv\<close>; an entry needs a non-empty name.\<close>

definition newEnv :: "r_interp \<Rightarrow> (string \<times> env_object) list" where
  "newEnv i = map (\<lambda>nv. (fst nv, obj_info (snd nv))) (filter (\<lambda>nv. fst nv \<noteq> []) (r_globals i))"

text \<open>The loop that fills \<^verbatim>\<open>newViewableDataFrames\<close> from the data frames of the scope.\<close>

definition newViewableDataFrames :: "r_interp \<Rightarrow> (string \<times> row list \<times> string list) list" where
  "newViewableDataFrames i =
     List.map_filter
       (\<lambda>nv. case rObjectToTable (toJs (snd nv)) of None \<Rightarrow> None | Some t \<Rightarrow> Some (fst nv, t))
       (filter (\<lambda>nv. is_data_frame (snd nv)) (r_globals i))"

definition rUpdateEnvironment :: "r_backend \<Rightarrow> r_backend" where
  "rUpdateEnvironment s =
     (if \<not> webR s then s
      else if r_script_raises (rInterp s)
        then s\<lparr>rInterpCalls := rInterpCalls s + 1\<rparr>
        else s\<lparr>rInterpCalls := rInterpCalls s + 1,
               rEnvironment := newEnv (rInterp s),
               packages := r_packages (rInterp s),
               viewableDataFrames := newViewableDataFrames (rInterp s)\<rparr>)"

subsection \<open>runCode\<close>

text \<open>The messages of one type, each followed by a newline, then \<^verbatim>\<open>trimEnd\<close>.\<close>

definition messages_of :: "line_kind \<Rightarrow> (line_kind \<times> string) list \<Rightarrow> string" where
  "messages_of k out =
     trimEnd (concat (map (\<lambda>m. snd m @ [CHR 0x0A]) (filter (\<lambda>m. fst m = k) out)))"

fun newPlots :: "nat \<Rightarrow> string option list \<Rightarrow> plot_data list" where
  "newPlots c [] = []"
| "newPlots c (None # imgs) = newPlots c imgs"
| "newPlots c (Some url # imgs) = \<lparr>plot_id = c, dataUrl = url\<rparr> # newPlots (Suc c) imgs"

definition captured :: "(line_kind \<times> string) list \<Rightarrow> string option list \<Rightarrow> r_backend \<Rightarrow> r_backend" where
  "captured out images s =
     (let stdoutMessages = messages_of Stdout out;
          stderrMessages = messages_of Stderr out;
          s1 = (if stdoutMessages \<noteq> []
                then s\<lparr>rConsoleOutput := rConsoleOutput s @
                         [\<lparr>ctype = Stdout, message = stdoutMessages\<rparr>]\<rparr> else s);
          s2 = (if stderrMessages \<noteq> []
                then s1\<lparr>rConsoleOutput := rConsoleOutput s1 @
                          [\<lparr>ctype = Stderr, message = stderrMessages\<rparr>]\<rparr> else s1)
      in if length images > 0
         then s2\<lparr>rPlots := rPlots s2 @ newPlots (rPlotIdCounter s2) images,
                 rPlotIdCounter := rPlotIdCounter s2 + length (newPlots (rPlotIdCounter s2) images)\<rparr>
         else s2)"

definition rRunCode :: "string \<Rightarrow> r_code \<Rightarrow> r_backend \<Rightarrow> r_backend" where
  "rRunCode code sem s =
     (if \<not> webR s \<or> rIsLoading s \<or> \<not> shelter s then s
      else
        let s1 = s\<lparr>rConsoleOutput := rConsoleOutput s @ [\<lparr>ctype = Input, message = code\<rparr>]\<rparr>;
            out = sem (rInterp s1);
            s2 = s1\<lparr>rInterp := r_after out, rInterpCalls := rInterpCalls s1 + 1\<rparr>;
            s3 = (case r_result out of
                    Captured msgs images \<Rightarrow> captured msgs images s2
                  | Threw msg \<Rightarrow>
                      s2\<lparr>rConsoleOutput := rConsoleOutput s2 @ [stderr_line msg]\<rparr>)
        in rUpdateEnvironment s3)"

subsection \<open>viewObjectByName\<close>

text \<open>
  \<^verbatim>\<open>viewableDataFrames\<close> is a plain object, so \<^verbatim>\<open>viewableDataFrames[name]\<close> reads a
  property of its own or, failing that, one inherited from \<^verbatim>\<open>Object.prototype\<close>; an
  inherited one is a function or an object, which is truthy and has nothing to spread.
\<close>

datatype 'a js_prop = Own 'a | Inherited | Absent

definition object_prototype_names :: "string list" where
  "object_prototype_names =
     [''constructor'', ''hasOwnProperty'', ''isPrototypeOf'', ''propertyIsEnumerable'',
      ''toLocaleString'', ''toString'', ''valueOf'', ''__proto__'', ''__defineGetter__'',
      ''__defineSetter__'', ''__lookupGetter__'', ''__lookupSetter__'']"

definition record_get :: "(string \<times> 'a) list \<Rightarrow> string \<Rightarrow> 'a js_prop" where
  "record_get m k =
     (case map_of m k of
        Some v \<Rightarrow> Own v
      | None \<Rightarrow> if k \<in> set object_prototype_names then Inherited else Absent)"

definition rViewObjectByName :: "string \<Rightarrow> r_backend \<Rightarrow> r_backend" where
  "rViewObjectByName n s =
     (if \<not> r_valid_name n
      then s\<lparr>rConsoleOutput := rConsoleOutput s @
                [stderr_line (''Error: Invalid object name for View(): '' @ n)]\<rparr>
      else case record_get (viewableDataFrames s) n of
             Own t \<Rightarrow> s\<lparr>rTableData := Some (Table n (fst t) (snd t))\<rparr>
           | Inherited \<Rightarrow> s\<lparr>rTableData := Some (NameOnly n)\<rparr>
           | Absent \<Rightarrow>
               s\<lparr>rConsoleOutput := rConsoleOutput s @
                 [stderr_line (''Data for object '' @ [CHR 0x27] @ n @ [CHR 0x27] @
                    '' not found. It might not be a data.frame or is not in the global environment.'')]\<rparr>)"

text \<open>The outcome of the source as \<^verbatim>\<open>runCode\<close> runs it.\<close>

definition r_ran :: "r_code \<Rightarrow> r_backend \<Rightarrow> r_outcome" where
  "r_ran sem t = sem (rInterp t)"

definition rClearPlots :: "r_backend \<Rightarrow> r_backend" where
  "rClearPlots s = s\<lparr>rPlots := []\<rparr>"

definition rClearTable :: "r_backend \<Rightarrow> r_backend" where
  "rClearTable s = s\<lparr>rTableData := None\<rparr>"

definition rClearConsole :: "r_backend \<Rightarrow> r_backend" where
  "rClearConsole s = s\<lparr>rConsoleOutput := []\<rparr>"

section \<open>Sequences of backend operations\<close>

datatype py_action = Run string py_code "bool option" | Clear

fun py_step :: "py_action \<Rightarrow> py_backend \<Rightarrow> py_backend" where
  "py_step (Run code sem opts) s = runCode code sem opts s"
| "py_step Clear s = clearConsole s"

fun is_run :: "py_action \<Rightarrow> bool" where
  "is_run (Run code sem opts) = True"
| "is_run Clear = False"

datatype r_action = RRun string r_code | RClear

fun r_step :: "r_action \<Rightarrow> r_backend \<Rightarrow> r_backend" where
  "r_step (RRun code sem) s = rRunCode code sem s"
| "r_step RClear s = rClearConsole s"

fun is_rrun :: "r_action \<Rightarrow> bool" where
  "is_rrun (RRun code sem) = True"
| "is_rrun RClear = False"

section \<open>Example backends and sources\<close>

definition py_ready :: py_backend where
  "py_ready =
     \<lparr>pyodide = True, isLoading = False,
      consoleOutput = [\<lparr>ctype = System, message = ''Initializing Pyodide...''\<rparr>],
      environment = [], tableData = None, plots = [], plotIdCounter = 0,
      interp = \<lparr>globals = [], fignums = [], builtins = [''print'', ''len''],
                env_script_raises = False\<rparr>,
      interpCalls = 0\<rparr>"

text \<open>A script that opens two figures, one that opens one.\<close>

definition two_plots :: py_code where
  "two_plots i = \<lparr>after = i\<lparr>fignums := fignums i @ [''AAAA'', ''BBBB'']\<rparr>, emitted = [],
                   raised = False\<rparr>"

definition one_plot :: py_code where
  "one_plot i = \<lparr>after = i\<lparr>fignums := fignums i @ [''CCCC'']\<rparr>, emitted = [],
                  raised = False\<rparr>"

text \<open>A statement that draws figure 1 and draws it again: figure 1 is open afterwards.\<close>

definition redraw_twice :: py_code where
  "redraw_twice i = \<lparr>after = i\<lparr>fignums := [''DDDD'']\<rparr>, emitted = [], raised = False\<rparr>"

text \<open>A script that opens a figure, prints, and then raises.\<close>

definition plot_then_raise :: py_code where
  "plot_then_raise i =
     \<lparr>after = i\<lparr>fignums := fignums i @ [''EEEE'']\<rparr>,
      emitted = [\<lparr>ctype = Stdout, message = ''before''\<rparr>,
                 \<lparr>ctype = Stderr, message = ''ZeroDivisionError: division by zero''\<rparr>],
      raised = True\<rparr>"

definition r_ready :: r_backend where
  "r_ready =
     \<lparr>webR = True, rIsLoading = False, shelter = True,
      rConsoleOutput = [\<lparr>ctype = System, message = ''Initializing WebR...''\<rparr>],
      rEnvironment = [], rTableData = None, rPlots = [], rPlotIdCounter = 0,
      packages = [], viewableDataFrames = [],
      rInterp = \<lparr>r_globals = [], r_packages = [], r_script_raises = False\<rparr>,
      rInterpCalls = 0\<rparr>"

definition r_print :: r_code where
  "r_print i = \<lparr>r_after = i, r_result = Captured [(Stdout, ''[1] 5'')] []\<rparr>"

definition r_stop :: r_code where
  "r_stop i = \<lparr>r_after = i, r_result = Threw ''Error in f(): boom''\<rparr>"

text \<open>A backend whose scope holds a data frame \<^verbatim>\<open>df\<close> with columns a, b and two rows.\<close>

definition py_df :: py_object where
  "py_df = \<lparr>type_name = ''DataFrame'', repr_of = Some ''   a  b'', isDataFrame = True,
            isFigure = False,
            to_json = Split [''a'', ''b''] [Num (Finite 0), Num (Finite 1)] [[Num (Finite 1.5), Str ''x''], [Num (Finite 2), Str ''y'']]\<rparr>"

definition py_with_df :: py_backend where
  "py_with_df = py_ready\<lparr>interp := (interp py_ready)\<lparr>globals := [(''df'', py_df), (''n'',
      \<lparr>type_name = ''int'', repr_of = Some ''5'', isDataFrame = False, isFigure = False,
       to_json = NoAttr\<rparr>)]\<rparr>,
     tableData := Some (Table ''old'' [] [''#''])\<rparr>"

definition r_df :: r_object where
  "r_df = \<lparr>r_class = [''data.frame''], is_function = False, formals = [],
           str_line = ''data.frame: 2 obs. of 2 variables:'', is_data_frame = True,
           toJs = JsList [''a'', ''b''] [JsVec [Num (Finite 1.5), Num (Finite 2)], JsVec [Str ''x'', Str ''y'']]\<rparr>"

definition r_with_df :: r_backend where
  "r_with_df = rUpdateEnvironment (r_ready\<lparr>rInterp := (rInterp r_ready)\<lparr>r_globals := [(''df'', r_df)]\<rparr>,
     rTableData := Some (Table ''old'' [] [''a''])\<rparr>)"

definition long_str :: py_object where
  "long_str = \<lparr>type_name = ''str'', repr_of = Some (replicate 101 CHR ''a''),
              isDataFrame = False, isFigure = False, to_json = NoAttr\<rparr>"

definition long_function :: r_object where
  "long_function = \<lparr>r_class = [''function''], is_function = True,
                   formals = [replicate 120 CHR ''a''], str_line = [],
                   is_data_frame = False, toJs = JsOther\<rparr>"

text \<open>
  A scope with a private name, a module, a builtin, an ignored import, an object whose
  \<^verbatim>\<open>repr\<close> raises, and a long string.
\<close>

definition py_scope :: py_interp where
  "py_scope =
     \<lparr>globals =
        [(''_tmp'', \<lparr>type_name = ''int'', repr_of = Some ''1'', isDataFrame = False,
                     isFigure = False, to_json = NoAttr\<rparr>),
         (''np'', \<lparr>type_name = ''module'', repr_of = Some ''<module numpy>'',
                   isDataFrame = False, isFigure = False, to_json = NoAttr\<rparr>),
         (''print'', \<lparr>type_name = ''builtin_function_or_method'',
                      repr_of = Some ''<built-in function print>'', isDataFrame = False,
                      isFigure = False, to_json = NoAttr\<rparr>),
         (''pd'', \<lparr>type_name = ''module'', repr_of = Some ''<module pandas>'',
                   isDataFrame = False, isFigure = False, to_json = NoAttr\<rparr>),
         (''broken'', \<lparr>type_name = ''Weird'', repr_of = None, isDataFrame = False,
                       isFigure = False, to_json = NoAttr\<rparr>),
         (''s'', long_str)],
      fignums = [], builtins = [''print'', ''len''], env_script_raises = False\<rparr>"

section \<open>Properties\<close>

subsection \<open>Round trip of the history navigation\<close>

lemma older_empty: "commandHistory s = [] \<Longrightarrow> historyIndex s = -1 \<Longrightarrow> older s = s"
  by (simp add: older_def arrowUp_def cursorEffect_def)

lemma newer_none: "historyIndex s = -1 \<Longrightarrow> newer s = s"
  by (simp add: newer_def arrowDown_def cursorEffect_def)

lemma newer_none_funpow: "historyIndex s = -1 \<Longrightarrow> (newer ^^ n) s = s"
  by (induction n) (simp_all add: newer_none)

lemma older_empty_funpow:
  "commandHistory s = [] \<Longrightarrow> historyIndex s = -1 \<Longrightarrow> (older ^^ n) s = s"
  by (induction n) (simp_all add: older_empty)

lemma older_first:
  assumes "commandHistory s \<noteq> []" "historyIndex s = -1"
  shows "older s = s\<lparr>tempUserCode := buffer s, historyIndex := 0,
                      buffer := commandHistory s ! 0\<rparr>"
  using assms by (simp add: older_def arrowUp_def cursorEffect_def js_index_def Let_def)

lemma older_next:
  assumes "0 \<le> historyIndex s" "historyIndex s < int (length (commandHistory s))"
  shows "older s = s\<lparr>historyIndex := min (historyIndex s + 1) (int (length (commandHistory s)) - 1),
                      buffer := commandHistory s !
                        nat (min (historyIndex s + 1) (int (length (commandHistory s)) - 1))\<rparr>"
  using assms
  by (auto simp add: older_def arrowUp_def cursorEffect_def js_index_def Let_def min_def)

lemma older_funpow:
  assumes "commandHistory s \<noteq> []" "historyIndex s = -1"
  shows "(older ^^ Suc n) s =
           s\<lparr>tempUserCode := buffer s,
             historyIndex := min (int n) (int (length (commandHistory s)) - 1),
             buffer := commandHistory s ! nat (min (int n) (int (length (commandHistory s)) - 1))\<rparr>"
proof (induction n)
  case 0
  from assms have "0 < length (commandHistory s)" by simp
  then show ?case using older_first [OF assms] by (simp add: min_def)
next
  case (Suc n)
  let ?h = "commandHistory s"
  let ?k = "min (int n) (int (length ?h) - 1)"
  let ?t = "s\<lparr>tempUserCode := buffer s, historyIndex := ?k, buffer := ?h ! nat ?k\<rparr>"
  from assms have len: "0 < length ?h" by simp
  have step: "(older ^^ Suc (Suc n)) s = older ?t"
    using Suc.IH by simp
  have r1: "0 \<le> historyIndex ?t" using len by simp
  have r2: "historyIndex ?t < int (length (commandHistory ?t))" using len by simp
  have "min (?k + 1) (int (length ?h) - 1) = min (int (Suc n)) (int (length ?h) - 1)"
    by (simp add: min_def)
  then show ?case
    unfolding step using older_next [OF r1 r2] by simp
qed

lemma newer_step:
  assumes "0 \<le> historyIndex s" "historyIndex s < int (length (commandHistory s))"
  shows "newer s =
          (if historyIndex s = 0 then s\<lparr>historyIndex := -1, buffer := tempUserCode s\<rparr>
           else s\<lparr>historyIndex := historyIndex s - 1,
                   buffer := commandHistory s ! nat (historyIndex s - 1)\<rparr>)"
  using assms
  by (auto simp add: newer_def arrowDown_def cursorEffect_def js_index_def Let_def)

lemma newer_funpow:
  assumes "historyIndex s = int k" "k < length (commandHistory s)"
  shows "(newer ^^ Suc k) s = s\<lparr>historyIndex := -1, buffer := tempUserCode s\<rparr>"
  using assms
proof (induction k arbitrary: s)
  case 0
  then show ?case using newer_step [of s] by simp
next
  case (Suc k)
  let ?t = "s\<lparr>historyIndex := int k, buffer := commandHistory s ! k\<rparr>"
  have n1: "newer s = ?t"
    using Suc.prems newer_step [of s] by simp
  have "(newer ^^ Suc (Suc k)) s = (newer ^^ Suc k) (newer s)"
    by (simp only: funpow_Suc_right o_apply)
  also have "\<dots> = (newer ^^ Suc k) ?t" by (simp only: n1)
  also have "\<dots> = ?t\<lparr>historyIndex := -1, buffer := tempUserCode ?t\<rparr>"
    using Suc.prems by (intro Suc.IH) simp_all
  finally show ?case by simp
qed

text \<open>
  The console input: from a cursor of "none", "older" \<open>n\<close> times and then "newer"
  \<open>n\<close> times gives back the buffer, the cursor "none" and the history, for every
  history, buffer and \<open>n\<close>; the first "older" on a non-empty history saves the buffer as
  the draft and shows the newest entry, and after \<open>n + 1\<close> steps the cursor is at
  \<open>min n (length - 1)\<close>.
\<close>

lemma console_round_trip:
  assumes "historyIndex s = -1"
  shows "buffer ((newer ^^ n) ((older ^^ n) s)) = buffer s
       \<and> historyIndex ((newer ^^ n) ((older ^^ n) s)) = -1
       \<and> commandHistory ((newer ^^ n) ((older ^^ n) s)) = commandHistory s"
proof (cases "commandHistory s = [] \<or> n = 0")
  case True
  then have "(older ^^ n) s = s"
    using assms by (auto simp add: older_empty_funpow)
  then show ?thesis using assms by (simp add: newer_none_funpow)
next
  case False
  then obtain m where n: "n = Suc m" and ne: "commandHistory s \<noteq> []"
    by (cases n) auto
  let ?h = "commandHistory s"
  let ?k = "min (int m) (int (length ?h) - 1)"
  let ?t = "s\<lparr>tempUserCode := buffer s, historyIndex := ?k, buffer := ?h ! nat ?k\<rparr>"
  have up: "(older ^^ n) s = ?t"
    unfolding n using older_funpow [OF ne assms] .
  from ne have len: "0 < length ?h" by simp
  have k1: "historyIndex ?t = int (nat ?k)" using len by simp
  have "nat (min (int m) (int L - 1)) < L" if "0 < L" for L :: nat
    using that by linarith
  from this [OF len] have k2: "nat ?k < length (commandHistory ?t)" by simp
  have k3: "nat ?k \<le> m" by simp
  have down: "(newer ^^ Suc (nat ?k)) ?t = ?t\<lparr>historyIndex := -1, buffer := tempUserCode ?t\<rparr>"
    using newer_funpow [OF k1 k2] .
  let ?u = "?t\<lparr>historyIndex := -1, buffer := tempUserCode ?t\<rparr>"
  have "n = (n - Suc (nat ?k)) + Suc (nat ?k)" using k3 n by simp
  then have "(newer ^^ n) ?t = (newer ^^ (n - Suc (nat ?k))) ((newer ^^ Suc (nat ?k)) ?t)"
    by (metis funpow_add o_apply)
  also have "\<dots> = (newer ^^ (n - Suc (nat ?k))) ?u" by (simp only: down)
  also have "\<dots> = ?u" by (rule newer_none_funpow) simp
  finally have "(newer ^^ n) ((older ^^ n) s) = ?u" by (simp only: up)
  then show ?thesis by simp
qed

lemma console_older_moves:
  assumes "commandHistory s \<noteq> []" "historyIndex s = -1"
  shows "tempUserCode (older s) = buffer s" and "historyIndex (older s) = 0"
    and "buffer (older s) = commandHistory s ! 0"
    and "historyIndex ((older ^^ Suc n) s) = min (int n) (int (length (commandHistory s)) - 1)"
  using older_first [OF assms] older_funpow [OF assms, of n] by simp_all

subsection \<open>History recall in the editor\<close>

lemma editor_keys_inert:
  "p_commandHistory cl = [] \<Longrightarrow> editorArrowUp cl s = s"
  "p_historyIndex cl = -1 \<Longrightarrow> editorArrowDown cl s = s"
  by (simp_all add: editorArrowUp_def editorArrowDown_def)

text \<open>
  C3. The round trip holds for the console input (\<open>console_round_trip\<close>) and fails in
  the editor. App starts with an R source that is a newline and \<open>x <- 1\<close>, and runs it, so the history is
  \<open>[''x <- 1'']\<close> and differs from the buffer. With the handlers that the editor
  registered at its mount, which read the empty history of that render, ArrowUp changes
  nothing: no draft is saved and the cursor stays "none". With handlers that read the
  props of the current render, ArrowUp shows the entry, \<^verbatim>\<open>handleCodeChange\<close> changes
  \<^verbatim>\<open>rCode\<close>, and the effect of App empties history, cursor and draft; ArrowDown then
  changes nothing, and the buffer is the history entry, not the text the navigation
  started from.
\<close>

theorem editor_recall_fails:
  "appHistory (fst (handleRun (app_start (CHR 0x0A # ''x <- 1'') ''y = 1''))) = [''x <- 1'']
   \<and> editorCode (fst (handleRun (app_start (CHR 0x0A # ''x <- 1'') ''y = 1'')))
       = CHR 0x0A # ''x <- 1''
   \<and> editorArrowUp (props_of (app_start (CHR 0x0A # ''x <- 1'') ''y = 1''))
         (fst (handleRun (app_start (CHR 0x0A # ''x <- 1'') ''y = 1'')))
       = fst (handleRun (app_start (CHR 0x0A # ''x <- 1'') ''y = 1''))
   \<and> editorArrowUp (props_of (fst (handleRun (app_start (CHR 0x0A # ''x <- 1'') ''y = 1''))))
         (fst (handleRun (app_start (CHR 0x0A # ''x <- 1'') ''y = 1'')))
       = \<lparr>language = LangR, rCode = ''x <- 1'', pythonCode = ''y = 1'', editorCode = ''x <- 1'',
          appHistory = [], appHistoryIndex = -1, appTempUserCode = []\<rparr>
   \<and> editorArrowDown (props_of (fst (handleRun (app_start (CHR 0x0A # ''x <- 1'') ''y = 1''))))
         \<lparr>language = LangR, rCode = ''x <- 1'', pythonCode = ''y = 1'', editorCode = ''x <- 1'',
          appHistory = [], appHistoryIndex = -1, appTempUserCode = []\<rparr>
       = \<lparr>language = LangR, rCode = ''x <- 1'', pythonCode = ''y = 1'', editorCode = ''x <- 1'',
          appHistory = [], appHistoryIndex = -1, appTempUserCode = []\<rparr>
   \<and> editorArrowDown
         (props_of \<lparr>language = LangR, rCode = ''x <- 1'', pythonCode = ''y = 1'',
            editorCode = ''x <- 1'', appHistory = [], appHistoryIndex = -1,
            appTempUserCode = []\<rparr>)
         \<lparr>language = LangR, rCode = ''x <- 1'', pythonCode = ''y = 1'', editorCode = ''x <- 1'',
          appHistory = [], appHistoryIndex = -1, appTempUserCode = []\<rparr>
       = \<lparr>language = LangR, rCode = ''x <- 1'', pythonCode = ''y = 1'', editorCode = ''x <- 1'',
          appHistory = [], appHistoryIndex = -1, appTempUserCode = []\<rparr>"
proof -
  have run: "fst (handleRun (app_start (CHR 0x0A # ''x <- 1'') ''y = 1'')) =
      \<lparr>language = LangR, rCode = CHR 0x0A # ''x <- 1'', pythonCode = ''y = 1'',
       editorCode = CHR 0x0A # ''x <- 1'', appHistory = [''x <- 1''], appHistoryIndex = -1,
       appTempUserCode = []\<rparr>"
    by (simp add: handleRun_def app_start_def trim_def trimEnd_def js_whitespace_def Let_def)
  show ?thesis
    unfolding run
    by (simp add: editorArrowUp_def editorArrowDown_def props_of_def app_start_def settle_def
        editorEffect_def rerender_def depsChanged_def appEffect_def handleCodeChange_def
        js_index_def Let_def)
qed

subsection \<open>Editing the buffer\<close>

lemma consoleOnChange_history: "commandHistory (consoleOnChange v s) = commandHistory s"
  by (simp add: consoleOnChange_def cursorEffect_def)

lemma editorOnChange_cursor: "appHistoryIndex (editorOnChange v s) = -1"
  by (simp add: editorOnChange_def rerender_def appEffect_def handleCodeChange_def Let_def)

lemma editorOnChange_same_text:
  "language s = LangR \<Longrightarrow> rCode s = t \<Longrightarrow>
     appHistory (editorOnChange (Some t) s) = appHistory s"
  by (simp add: editorOnChange_def rerender_def depsChanged_def handleCodeChange_def Let_def)

lemma handleRun_history:
  "trim (editorCode s) \<noteq> [] \<Longrightarrow>
     appHistory (fst (handleRun s)) =
       trim (editorCode s) # filter (\<lambda>c. c \<noteq> trim (editorCode s)) (appHistory s)"
  by (simp add: handleRun_def Let_def)

text \<open>
  C4. In App an edit of the editor buffer that changes the text empties the command
  history: with the history \<open>[''x <- 1'']\<close> after a run of that text, typing one more
  character leaves the history empty (the cursor is "none", as the claim says). The
  effect that resets the history on a language switch also depends on \<^verbatim>\<open>rCode\<close> and
  \<^verbatim>\<open>pythonCode\<close>, which \<^verbatim>\<open>handleCodeChange\<close> sets on every edit.
\<close>

theorem edit_empties_history:
  "appHistory (fst (handleRun \<lparr>language = LangR, rCode = ''x <- 1'', pythonCode = ''y = 1'',
         editorCode = ''x <- 1'', appHistory = [], appHistoryIndex = -1,
         appTempUserCode = []\<rparr>)) = [''x <- 1'']
   \<and> appHistory (editorOnChange (Some ''x <- 12'')
      (fst (handleRun \<lparr>language = LangR, rCode = ''x <- 1'', pythonCode = ''y = 1'',
         editorCode = ''x <- 1'', appHistory = [], appHistoryIndex = -1,
         appTempUserCode = []\<rparr>))) = []"
  by (simp add: editorOnChange_def rerender_def depsChanged_def appEffect_def
      handleCodeChange_def handleRun_def trim_def trimEnd_def js_whitespace_def Let_def)

subsection \<open>What each step of runCode leaves alone\<close>

lemma updateEnvironment_frame:
  "consoleOutput (updateEnvironment s) = consoleOutput s"
  "plots (updateEnvironment s) = plots s"
  "tableData (updateEnvironment s) = tableData s"
  "interp (updateEnvironment s) = interp s"
  "plotIdCounter (updateEnvironment s) = plotIdCounter s"
  by (simp_all add: updateEnvironment_def)

lemma capturePlots_frame:
  "consoleOutput (capturePlots b s) = consoleOutput s"
  "interp (capturePlots b s) = interp s"
  "tableData (capturePlots b s) = tableData s"
  "pyodide (capturePlots b s) = pyodide s"
  by (simp_all add: capturePlots_def Let_def)

lemma executed_frame:
  "plots (fst (executed sem b s)) = plots s"
  "tableData (fst (executed sem b s)) = tableData s"
  "pyodide (fst (executed sem b s)) = pyodide s"
  "plotIdCounter (fst (executed sem b s)) = plotIdCounter s"
  by (simp_all add: executed_def Let_def)

lemma executed_console:
  "consoleOutput (fst (executed sem b s)) =
     consoleOutput s @ batched (emitted (sem (if b then interp s else close_all (interp s))))"
  by (simp add: executed_def Let_def)

lemma runCode_console:
  "consoleOutput (runCode code sem opts s) =
     (if \<not> pyodide s \<or> isLoading s then consoleOutput s
      else consoleOutput s @ \<lparr>ctype = Input, message = code\<rparr> #
             batched (emitted (sem (if (case opts of None \<Rightarrow> False | Some b \<Rightarrow> b)
                                    then interp s else close_all (interp s)))))"
  by (simp add: runCode_def Let_def split_beta updateEnvironment_frame capturePlots_frame
      executed_console)

lemma runCode_console_length:
  "length (consoleOutput s) \<le> length (consoleOutput (runCode code sem opts s))"
  by (simp add: runCode_console)

lemma runCode_flags:
  "pyodide (runCode code sem opts s) = pyodide s"
  "isLoading (runCode code sem opts s) = isLoading s"
  by (simp_all add: runCode_def executed_def capturePlots_def updateEnvironment_def Let_def
      split_beta)

lemma rUpdateEnvironment_frame:
  "rConsoleOutput (rUpdateEnvironment s) = rConsoleOutput s"
  "rPlots (rUpdateEnvironment s) = rPlots s"
  "rTableData (rUpdateEnvironment s) = rTableData s"
  "rInterp (rUpdateEnvironment s) = rInterp s"
  by (simp_all add: rUpdateEnvironment_def)

lemma captured_console:
  "\<exists>ls. rConsoleOutput (captured out images s) = rConsoleOutput s @ ls"
  by (simp add: captured_def Let_def)

lemma rRunCode_console:
  "\<exists>ls. rConsoleOutput (rRunCode code sem s) = rConsoleOutput s @ ls"
proof (cases "\<not> webR s \<or> rIsLoading s \<or> \<not> shelter s")
  case True
  then have "rRunCode code sem s = s" by (simp add: rRunCode_def)
  then show ?thesis by simp
next
  case False
  let ?s1 = "s\<lparr>rConsoleOutput := rConsoleOutput s @ [\<lparr>ctype = Input, message = code\<rparr>]\<rparr>"
  let ?out = "sem (rInterp ?s1)"
  let ?s2 = "?s1\<lparr>rInterp := r_after ?out, rInterpCalls := rInterpCalls ?s1 + 1\<rparr>"
  show ?thesis
  proof (cases "r_result ?out")
    case (Captured msgs images)
    obtain ls where "rConsoleOutput (captured msgs images ?s2) = rConsoleOutput ?s2 @ ls"
      using captured_console by blast
    then show ?thesis
      using False Captured by (simp add: rRunCode_def Let_def rUpdateEnvironment_frame)
  next
    case (Threw msg)
    then show ?thesis
      using False by (simp add: rRunCode_def Let_def rUpdateEnvironment_frame)
  qed
qed

lemma rRunCode_console_length:
  "length (rConsoleOutput s) \<le> length (rConsoleOutput (rRunCode code sem s))"
  using rRunCode_console [of code sem s] by auto

subsection \<open>The length of the console\<close>

lemma py_runs_console_length:
  "list_all is_run acts \<Longrightarrow>
     length (consoleOutput s) \<le> length (consoleOutput (fold py_step acts s))"
proof (induction acts arbitrary: s)
  case Nil
  then show ?case by simp
next
  case (Cons a acts)
  then obtain code sem opts where a: "a = Run code sem opts" by (cases a) auto
  have "length (consoleOutput s) \<le> length (consoleOutput (py_step a s))"
    by (simp add: a runCode_console_length)
  also have "\<dots> \<le> length (consoleOutput (fold py_step acts (py_step a s)))"
    using Cons by simp
  finally show ?case by simp
qed

lemma r_runs_console_length:
  "list_all is_rrun acts \<Longrightarrow>
     length (rConsoleOutput s) \<le> length (rConsoleOutput (fold r_step acts s))"
proof (induction acts arbitrary: s)
  case Nil
  then show ?case by simp
next
  case (Cons a acts)
  then obtain code sem where a: "a = RRun code sem" by (cases a) auto
  have "length (rConsoleOutput s) \<le> length (rConsoleOutput (r_step a s))"
    by (simp add: a rRunCode_console_length)
  also have "\<dots> \<le> length (rConsoleOutput (fold r_step acts (r_step a s)))"
    using Cons by simp
  finally show ?case by simp
qed

text \<open>
  C8. Along every sequence of \<^verbatim>\<open>runCode\<close> calls, on either backend, the console is never
  shorter at the end than at the start; \<^verbatim>\<open>clearConsole\<close> leaves it empty; and a step of
  a sequence of runs and clears that shortens the console is a clear.
\<close>

theorem console_length_non_decreasing:
  "(list_all is_run acts \<longrightarrow>
      length (consoleOutput s) \<le> length (consoleOutput (fold py_step acts s)))
   \<and> (list_all is_rrun racts \<longrightarrow>
      length (rConsoleOutput t) \<le> length (rConsoleOutput (fold r_step racts t)))
   \<and> length (consoleOutput (py_step Clear s)) = 0
   \<and> length (rConsoleOutput (r_step RClear t)) = 0
   \<and> (length (consoleOutput (py_step a s)) < length (consoleOutput s) \<longrightarrow> a = Clear)
   \<and> (length (rConsoleOutput (r_step b t)) < length (rConsoleOutput t) \<longrightarrow> b = RClear)"
proof -
  have "a = Clear" if "length (consoleOutput (py_step a s)) < length (consoleOutput s)"
  proof (cases a)
    case (Run code sem opts)
    then show ?thesis using that runCode_console_length [of s code sem opts] by simp
  qed simp
  moreover have "b = RClear" if "length (rConsoleOutput (r_step b t)) < length (rConsoleOutput t)"
  proof (cases b)
    case (RRun code sem)
    then show ?thesis using that rRunCode_console_length [of t code sem] by simp
  qed simp
  ultimately show ?thesis
    by (simp add: py_runs_console_length r_runs_console_length clearConsole_def
        rClearConsole_def)
qed

theorem console_length_non_decreasing_witness:
  "length (consoleOutput (fold py_step [Run ''a = 1'' one_plot None, Run ''b'' plot_then_raise None]
       py_ready)) = 5
   \<and> length (rConsoleOutput (fold r_step [RRun ''5'' r_print, RRun ''f()'' r_stop] r_ready)) = 5
   \<and> length (consoleOutput (py_step Clear py_ready)) < length (consoleOutput py_ready)"
  using console_length_non_decreasing [of "[Run ''a = 1'' one_plot None, Run ''b'' plot_then_raise None]"
      py_ready "[RRun ''5'' r_print, RRun ''f()'' r_stop]" r_ready Clear RClear]
  by (simp add: py_ready_def r_ready_def runCode_def rRunCode_def executed_def capturePlots_def
      updateEnvironment_def rUpdateEnvironment_def captured_def messages_of_def trimEnd_def
      js_whitespace_def one_plot_def plot_then_raise_def r_print_def r_stop_def close_all_def
      batched_def clearConsole_def stderr_line_def env_script_def newEnv_def
      newViewableDataFrames_def List.map_filter_def Let_def)

subsection \<open>Plots of the Python backend\<close>

lemma runCode_script:
  assumes "pyodide s" "\<not> isLoading s" "\<not> raised (sem (close_all (interp s)))"
  shows "plots (runCode code sem None s) =
           plots s @ plotObjects (plotIdCounter s) (fignums (after (sem (close_all (interp s)))))"
    and "interp (runCode code sem None s) = after (sem (close_all (interp s)))"
    and "plotIdCounter (runCode code sem None s) =
           plotIdCounter s + length (fignums (after (sem (close_all (interp s)))))"
    and "pyodide (runCode code sem None s)" and "\<not> isLoading (runCode code sem None s)"
  using assms
  by (simp_all add: runCode_def executed_def capturePlots_def updateEnvironment_def Let_def)

lemma runCode_interactive:
  assumes "pyodide s" "\<not> isLoading s" "\<not> raised (sem (interp s))"
  shows "plots (runCode code sem (Some True) s) =
           plotObjects (plotIdCounter s) (fignums (after (sem (interp s))))"
    and "interp (runCode code sem (Some True) s) = after (sem (interp s))"
  using assms
  by (simp_all add: runCode_def executed_def capturePlots_def updateEnvironment_def Let_def)

lemma length_plotObjects: "length (plotObjects c ps) = length ps"
  by (induction ps arbitrary: c) simp_all

lemma dataUrl_plotObjects:
  "map dataUrl (plotObjects c ps) = map (\<lambda>p. ''data:image/png;base64,'' @ p) ps"
  by (induction ps arbitrary: c) simp_all

text \<open>
  C2, as the code has it. On an initialized Python backend and for a source that does
  not raise: a non-interactive run empties the interpreter's figure set before the
  source runs, appends one record for each figure open afterwards, and leaves those
  figures open (the next non-interactive run closes them before it starts); two such
  runs in a row append the records of the first and then those of the second. An
  interactive run replaces the plot list by the records of the figures open afterwards.
\<close>

theorem runCode_plot_capture:
  assumes "pyodide s" "\<not> isLoading s"
  shows "(\<not> raised (sem (close_all (interp s))) \<longrightarrow>
            plots (runCode code sem None s) =
              plots s @ plotObjects (plotIdCounter s) (fignums (after (sem (close_all (interp s)))))
          \<and> fignums (interp (runCode code sem None s)) =
              fignums (after (sem (close_all (interp s)))))
       \<and> (\<not> raised (sem (close_all (interp s))) \<and>
          \<not> raised (semB (close_all (after (sem (close_all (interp s)))))) \<longrightarrow>
            plots (runCode codeB semB None (runCode code sem None s)) =
              plots s
              @ plotObjects (plotIdCounter s) (fignums (after (sem (close_all (interp s)))))
              @ plotObjects (plotIdCounter s + length (fignums (after (sem (close_all (interp s))))))
                  (fignums (after (semB (close_all (after (sem (close_all (interp s)))))))))
       \<and> (\<not> raised (sem (interp s)) \<longrightarrow>
            plots (runCode code sem (Some True) s) =
              plotObjects (plotIdCounter s) (fignums (after (sem (interp s)))))"
proof (intro conjI impI)
  assume ok: "\<not> raised (sem (close_all (interp s)))"
  show "plots (runCode code sem None s) =
          plots s @ plotObjects (plotIdCounter s) (fignums (after (sem (close_all (interp s)))))"
    using runCode_script(1) [where s = s and sem = sem and code = code] assms ok by simp
  show "fignums (interp (runCode code sem None s)) =
          fignums (after (sem (close_all (interp s))))"
    using runCode_script(2) [where s = s and sem = sem and code = code] assms ok by simp
next
  assume "\<not> raised (sem (close_all (interp s))) \<and>
          \<not> raised (semB (close_all (after (sem (close_all (interp s))))))"
  then have ok: "\<not> raised (sem (close_all (interp s)))"
    and okB: "\<not> raised (semB (close_all (after (sem (close_all (interp s))))))"
    by simp_all
  let ?s1 = "runCode code sem None s"
  note first = runCode_script [where s = s and sem = sem and code = code, OF assms ok]
  have okB': "\<not> raised (semB (close_all (interp ?s1)))"
    using okB first(2) by simp
  show "plots (runCode codeB semB None ?s1) =
          plots s
          @ plotObjects (plotIdCounter s) (fignums (after (sem (close_all (interp s)))))
          @ plotObjects (plotIdCounter s + length (fignums (after (sem (close_all (interp s))))))
              (fignums (after (semB (close_all (after (sem (close_all (interp s))))))))"
    using runCode_script(1) [where s = ?s1 and sem = semB and code = codeB, OF first(4) first(5) okB']
      first(1,2,3) by simp
next
  assume ok: "\<not> raised (sem (interp s))"
  show "plots (runCode code sem (Some True) s) =
          plotObjects (plotIdCounter s) (fignums (after (sem (interp s))))"
    using runCode_interactive(1) [where s = s and sem = sem and code = code] assms ok by simp
qed

theorem runCode_plot_capture_witness:
  "plots (runCode ''second'' one_plot None (runCode ''first'' two_plots None py_ready)) =
     [\<lparr>plot_id = 0, dataUrl = ''data:image/png;base64,AAAA''\<rparr>,
      \<lparr>plot_id = 1, dataUrl = ''data:image/png;base64,BBBB''\<rparr>,
      \<lparr>plot_id = 2, dataUrl = ''data:image/png;base64,CCCC''\<rparr>]
   \<and> length (plots (runCode ''redraw'' redraw_twice (Some True)
        (runCode ''redraw'' redraw_twice (Some True) py_ready))) = 1"
proof -
  have a: "pyodide py_ready" and b: "\<not> isLoading py_ready"
    by (simp_all add: py_ready_def)
  have c: "pyodide (runCode ''redraw'' redraw_twice (Some True) py_ready)"
    and d: "\<not> isLoading (runCode ''redraw'' redraw_twice (Some True) py_ready)"
    using a b by (simp_all add: runCode_flags)
  show ?thesis
    using runCode_plot_capture [where s = py_ready and sem = two_plots and semB = one_plot
          and code = "''first''" and codeB = "''second''", OF a b]
      runCode_plot_capture [where s = "runCode ''redraw'' redraw_twice (Some True) py_ready"
          and sem = redraw_twice and semB = redraw_twice
          and code = "''redraw''" and codeB = "''redraw''", OF c d]
    by (simp add: py_ready_def two_plots_def one_plot_def redraw_twice_def close_all_def
        length_plotObjects)
qed

text \<open>
  C2 as stated fails where it says that a non-interactive run leaves the interpreter's
  figure set empty: after the script with two plots both figures are still open.
\<close>

theorem figures_left_open_counterexample:
  "fignums (interp (runCode ''first'' two_plots None py_ready)) = [''AAAA'', ''BBBB'']"
  by (simp add: py_ready_def runCode_def executed_def capturePlots_def updateEnvironment_def
      two_plots_def close_all_def Let_def)

subsection \<open>runCode when the source raises and when it does not\<close>

lemma runCode_environment:
  assumes "pyodide s" "\<not> isLoading s"
  shows "environment (runCode code sem opts s) =
           (if env_script_raises (after (py_ran sem opts s)) then environment s
            else env_script (after (py_ran sem opts s)))"
  using assms
  by (simp add: runCode_def executed_def capturePlots_def updateEnvironment_def Let_def
      py_ran_def isInteractive_of_def split: option.splits)

lemma runCode_plots:
  assumes "pyodide s" "\<not> isLoading s"
  shows "plots (runCode code sem opts s) =
           (if raised (py_ran sem opts s) then plots s
            else if isInteractive_of opts
              then plotObjects (plotIdCounter s) (fignums (after (py_ran sem opts s)))
              else plots s @ plotObjects (plotIdCounter s) (fignums (after (py_ran sem opts s))))"
  using assms
  by (simp add: runCode_def executed_def capturePlots_def updateEnvironment_def Let_def
      py_ran_def isInteractive_of_def length_plotObjects split: option.splits)

lemma runCode_console_kept:
  "take (length (consoleOutput s)) (consoleOutput (runCode code sem opts s)) = consoleOutput s"
  by (simp add: runCode_console)

lemma rRunCode_environment:
  assumes "webR t" "\<not> rIsLoading t" "shelter t"
  shows "rEnvironment (rRunCode code sem t) =
           (if r_script_raises (r_after (r_ran sem t)) then rEnvironment t
            else newEnv (r_after (r_ran sem t)))"
  using assms
  by (simp add: rRunCode_def captured_def rUpdateEnvironment_def Let_def r_ran_def
      split: capture.splits)

lemma rRunCode_plots:
  assumes "webR t" "\<not> rIsLoading t" "shelter t"
  shows "rPlots (rRunCode code sem t) =
           (case r_result (r_ran sem t) of
              Threw msg \<Rightarrow> rPlots t
            | Captured msgs images \<Rightarrow> rPlots t @ newPlots (rPlotIdCounter t) images)"
  using assms
  by (simp add: rRunCode_def captured_def rUpdateEnvironment_def Let_def r_ran_def
      split: capture.splits)

lemma rRunCode_console_kept:
  "take (length (rConsoleOutput t)) (rConsoleOutput (rRunCode code sem t)) = rConsoleOutput t"
  using rRunCode_console [of code sem t] by auto

text \<open>
  C1, as the code has it. For every \<^verbatim>\<open>runCode\<close> on an initialized backend of either
  flavor, whether or not the source raises: the environment snapshot is refreshed (it is
  the fresh reflection of the interpreter, unless the reflection script itself fails,
  which leaves it as it was), and every console line present before is still there, in
  place. The plot collection is refreshed only when the source does not raise: the
  records of the figures or images are appended (replaced, for an interactive Python
  call); when the source raises the plot collection is exactly what it was, so every
  record present before is kept and nothing is captured.
\<close>

theorem runCode_refresh:
  assumes "pyodide s" "\<not> isLoading s" "webR t" "\<not> rIsLoading t" "shelter t"
  shows "environment (runCode code sem opts s) =
           (if env_script_raises (after (py_ran sem opts s)) then environment s
            else env_script (after (py_ran sem opts s)))
       \<and> plots (runCode code sem opts s) =
           (if raised (py_ran sem opts s) then plots s
            else if isInteractive_of opts
              then plotObjects (plotIdCounter s) (fignums (after (py_ran sem opts s)))
              else plots s @ plotObjects (plotIdCounter s) (fignums (after (py_ran sem opts s))))
       \<and> take (length (consoleOutput s)) (consoleOutput (runCode code sem opts s)) = consoleOutput s
       \<and> rEnvironment (rRunCode rcode rsem t) =
           (if r_script_raises (r_after (r_ran rsem t)) then rEnvironment t
            else newEnv (r_after (r_ran rsem t)))
       \<and> rPlots (rRunCode rcode rsem t) =
           (case r_result (r_ran rsem t) of
              Threw msg \<Rightarrow> rPlots t
            | Captured msgs images \<Rightarrow> rPlots t @ newPlots (rPlotIdCounter t) images)
       \<and> take (length (rConsoleOutput t)) (rConsoleOutput (rRunCode rcode rsem t)) = rConsoleOutput t"
  using runCode_environment [OF assms(1,2)] runCode_plots [OF assms(1,2)]
    runCode_console_kept rRunCode_environment [OF assms(3,4,5)] rRunCode_plots [OF assms(3,4,5)]
    rRunCode_console_kept
  by simp

theorem runCode_refresh_witness:
  "plots (runCode ''boom'' plot_then_raise None
      (runCode ''first'' two_plots None py_ready)) =
     [\<lparr>plot_id = 0, dataUrl = ''data:image/png;base64,AAAA''\<rparr>,
      \<lparr>plot_id = 1, dataUrl = ''data:image/png;base64,BBBB''\<rparr>]
   \<and> environment (runCode ''boom'' plot_then_raise None py_ready) = []
   \<and> rPlots (rRunCode ''f()'' r_stop r_ready) = []
   \<and> rEnvironment (rRunCode ''f()'' r_stop r_ready) = []"
proof -
  let ?s = "runCode ''first'' two_plots None py_ready"
  have a0: "pyodide py_ready" and b0: "\<not> isLoading py_ready"
    by (simp_all add: py_ready_def)
  have a: "pyodide ?s" and b: "\<not> isLoading ?s"
    using a0 b0 by (simp_all add: runCode_flags)
  have c: "webR r_ready" and d: "\<not> rIsLoading r_ready" and e: "shelter r_ready"
    by (simp_all add: r_ready_def)
  have p: "plots ?s = [\<lparr>plot_id = 0, dataUrl = ''data:image/png;base64,AAAA''\<rparr>,
      \<lparr>plot_id = 1, dataUrl = ''data:image/png;base64,BBBB''\<rparr>]"
    using runCode_plots [OF a0 b0, of "''first''" two_plots None]
    by (simp add: py_ran_def isInteractive_of_def two_plots_def close_all_def py_ready_def)
  note T = runCode_refresh [OF a b c d e, of "''boom''" plot_then_raise None "''f()''" r_stop]
  note T0 = runCode_refresh [OF a0 b0 c d e, of "''boom''" plot_then_raise None "''f()''" r_stop]
  have q: "plots (runCode ''boom'' plot_then_raise None ?s) = plots ?s"
    using T [THEN conjunct2, THEN conjunct1]
    by (simp add: py_ran_def plot_then_raise_def)
  have r1: "environment (runCode ''boom'' plot_then_raise None py_ready) = []"
    using T0 [THEN conjunct1]
    by (simp add: py_ran_def isInteractive_of_def plot_then_raise_def py_ready_def
        close_all_def env_script_def)
  have r2: "rEnvironment (rRunCode ''f()'' r_stop r_ready) = []"
    using T0 [THEN conjunct2, THEN conjunct2, THEN conjunct2, THEN conjunct1]
    by (simp add: r_ran_def r_stop_def r_ready_def newEnv_def)
  have r3: "rPlots (rRunCode ''f()'' r_stop r_ready) = []"
    using T0 [THEN conjunct2, THEN conjunct2, THEN conjunct2, THEN conjunct2, THEN conjunct1]
    by (simp add: r_ran_def r_stop_def r_ready_def)
  show ?thesis using p q r1 r2 r3 by simp
qed

text \<open>
  C1 as stated fails where it says that the plot collection is refreshed also when the
  source raises: a script that opens a figure and then raises leaves the figure open in
  the interpreter and the plot collection empty, where the capture step on the same state
  gives one record.
\<close>

theorem failed_run_not_captured_counterexample:
  "plots (runCode ''boom'' plot_then_raise None py_ready) = []
   \<and> fignums (interp (runCode ''boom'' plot_then_raise None py_ready)) = [''EEEE'']
   \<and> plots (capturePlots False (fst (executed plot_then_raise False py_ready))) =
       [\<lparr>plot_id = 0, dataUrl = ''data:image/png;base64,EEEE''\<rparr>]"
  by (simp add: py_ready_def runCode_def executed_def capturePlots_def updateEnvironment_def
      plot_then_raise_def close_all_def Let_def)

subsection \<open>The table of a viewed object\<close>

lemma rObjectToTable_two:
  "rObjectToTable (JsList [c, d] [JsVec [x0, x1], JsVec [y0, y1]]) =
     Some ([r_row [c, d] [JsVec [x0, x1], JsVec [y0, y1]] 0,
            r_row [c, d] [JsVec [x0, x1], JsVec [y0, y1]] 1], [c, d])"
  by (simp add: rObjectToTable_def nRows_def upt_rec)

lemma r_row_cells:
  assumes "c \<noteq> []" "d \<noteq> []" "c \<noteq> d" "c \<noteq> ''__proto__''" "d \<noteq> ''__proto__''" "i < 2"
  shows "r_row [c, d] [JsVec [x0, x1], JsVec [y0, y1]] i c = Some ([x0, x1] ! i)"
    and "r_row [c, d] [JsVec [x0, x1], JsVec [y0, y1]] i d = Some ([y0, y1] ! i)"
  using assms by (auto simp add: r_row_def r_cell_def js_set_def upt_rec)

lemma r_row_other:
  assumes "k \<noteq> c" "k \<noteq> d"
  shows "r_row [c, d] vals i k = None"
  using assms by (simp add: r_row_def js_set_def upt_rec)

lemma rViewObjectByName_own:
  assumes "r_valid_name m" "map_of (viewableDataFrames t) m = Some (rows, cols)"
  shows "rTableData (rViewObjectByName m t) = Some (Table m rows cols)"
  using assms by (simp add: rViewObjectByName_def record_get_def)

text \<open>
  The Python hook never reaches its table branch: the snippet gives no value, so every
  call appends one stderr line and leaves the table state as it was, also for a name
  that is bound to a data frame.
\<close>

lemma viewObjectByName_no_table:
  "tableData (viewObjectByName n s) = tableData s"
  "\<exists>msg. consoleOutput (viewObjectByName n s) = consoleOutput s @ [stderr_line msg]"
  by (auto simp add: viewObjectByName_def tableJson_def Let_def
      split: option.splits to_json_result.splits)

lemma viewObjectByName_data_frame:
  "tableData (viewObjectByName ''df'' py_with_df) = Some (Table ''old'' [] [''#''])"
  "isDataFrame (the (map_of (globals (interp py_with_df)) ''df''))"
  by (simp_all add: viewObjectByName_no_table py_with_df_def py_ready_def py_df_def)

text \<open>
  C6, as the code has it by design, for the R flavor. A successful view of a data frame
  with the columns \<open>[c, d]\<close> (two different names, neither empty nor \<open>#\<close> nor
  \<open>__proto__\<close>, such as \<open>a\<close> and \<open>b\<close>) and two rows gives a table with the columns
  \<open>[c, d]\<close> as they are, with no leading index column and no \<open>#\<close> value in its rows,
  and two rows that hold the values of the columns in source order. (The R table view
  numbers the displayed rows itself.)
\<close>

theorem viewObject_table:
  assumes "r_valid_name m"
    and "map_of (viewableDataFrames t) m =
           rObjectToTable (JsList [c, d] [JsVec [x0, x1], JsVec [y0, y1]])"
    and "c \<noteq> []" "d \<noteq> []" "c \<noteq> d" "c \<noteq> ''#''" "d \<noteq> ''#''"
    and "c \<noteq> ''__proto__''" "d \<noteq> ''__proto__''"
  shows "\<exists>rows. rTableData (rViewObjectByName m t) = Some (Table m rows [c, d])
           \<and> length rows = 2 \<and> map (\<lambda>r. r ''#'') rows = [None, None]
           \<and> map (\<lambda>r. r c) rows = [Some x0, Some x1]
           \<and> map (\<lambda>r. r d) rows = [Some y0, Some y1]"
proof -
  let ?v = "[JsVec [x0, x1], JsVec [y0, y1]]"
  let ?rows = "[r_row [c, d] ?v 0, r_row [c, d] ?v 1]"
  have "map_of (viewableDataFrames t) m = Some (?rows, [c, d])"
    using assms(2) by (simp add: rObjectToTable_two)
  from rViewObjectByName_own [OF assms(1) this]
  have tab: "rTableData (rViewObjectByName m t) = Some (Table m ?rows [c, d])" .
  have cells: "map (\<lambda>r. r c) ?rows = [Some x0, Some x1]"
      "map (\<lambda>r. r d) ?rows = [Some y0, Some y1]"
    using r_row_cells [OF assms(3,4,5,8,9), of 0 x0 x1 y0 y1]
      r_row_cells [OF assms(3,4,5,8,9), of 1 x0 x1 y0 y1]
    by simp_all
  have "map (\<lambda>r. r ''#'') ?rows = [None, None]"
    using assms(6,7) by (simp add: r_row_other)
  with tab cells show ?thesis by simp
qed

theorem viewObject_table_witness:
  "map_option tcolumns (rTableData (rViewObjectByName ''df'' r_with_df)) = Some [''a'', ''b'']
   \<and> map_option (map (\<lambda>r. r ''a'') \<circ> tdata) (rTableData (rViewObjectByName ''df'' r_with_df))
       = Some [Some (Num (Finite 1.5)), Some (Num (Finite 2))]
   \<and> map_option (map (\<lambda>r. r ''b'') \<circ> tdata) (rTableData (rViewObjectByName ''df'' r_with_df))
       = Some [Some (Str ''x''), Some (Str ''y'')]
   \<and> map_option (map (\<lambda>r. r ''#'') \<circ> tdata) (rTableData (rViewObjectByName ''df'' r_with_df))
       = Some [None, None]"
proof -
  have 4: "r_valid_name ''df''" by (simp add: r_valid_name_def word_char_def)
  have 5: "map_of (viewableDataFrames r_with_df) ''df'' =
             rObjectToTable (JsList [''a'', ''b'']
               [JsVec [Num (Finite 1.5), Num (Finite 2)], JsVec [Str ''x'', Str ''y'']])"
    by (simp add: r_with_df_def r_ready_def rUpdateEnvironment_def newViewableDataFrames_def
        List.map_filter_def r_df_def rObjectToTable_two)
  from viewObject_table [OF 4 5]
  show ?thesis by auto
qed

text \<open>
  C6 as stated fails for the R flavor: the table of the viewed data frame has the columns
  of the data frame and no leading \<open>#\<close>.
\<close>

theorem r_view_columns_counterexample:
  "map_option tcolumns (rTableData (rViewObjectByName ''df'' r_with_df)) = Some [''a'', ''b'']"
  by (simp add: rViewObjectByName_def r_valid_name_def word_char_def record_get_def
      r_with_df_def r_ready_def rUpdateEnvironment_def newViewableDataFrames_def
      List.map_filter_def r_df_def rObjectToTable_two)

subsection \<open>Rejected views\<close>

lemma viewObjectByName_invalid:
  assumes "\<not> py_valid_name n"
  shows "consoleOutput (viewObjectByName n s) =
           consoleOutput s @ [stderr_line (''Error: Invalid object name for viewer: '' @ n)]"
    and "tableData (viewObjectByName n s) = tableData s"
    and "interpCalls (viewObjectByName n s) = interpCalls s"
    and "interp (viewObjectByName n s) = interp s"
  using assms by (simp_all add: viewObjectByName_def)

lemma viewObjectByName_not_tabular:
  assumes "pyodide s" "py_valid_name n"
  shows "\<exists>msg. consoleOutput (viewObjectByName n s) = consoleOutput s @ [stderr_line msg]"
    and "tableData (viewObjectByName n s) = tableData s"
    and "interp (viewObjectByName n s) = interp s"
  using assms
  by (auto simp add: viewObjectByName_def tableJson_def Let_def
      split: option.splits to_json_result.splits)

lemma rViewObjectByName_invalid:
  assumes "\<not> r_valid_name n"
  shows "rConsoleOutput (rViewObjectByName n t) =
           rConsoleOutput t @ [stderr_line (''Error: Invalid object name for View(): '' @ n)]"
    and "rTableData (rViewObjectByName n t) = rTableData t"
    and "rInterpCalls (rViewObjectByName n t) = rInterpCalls t"
    and "rInterp (rViewObjectByName n t) = rInterp t"
  using assms by (simp_all add: rViewObjectByName_def)

lemma rViewObjectByName_absent:
  assumes "r_valid_name n" "map_of (viewableDataFrames t) n = None"
    and "n \<notin> set object_prototype_names"
  shows "\<exists>msg. rConsoleOutput (rViewObjectByName n t) = rConsoleOutput t @ [stderr_line msg]"
    and "rTableData (rViewObjectByName n t) = rTableData t"
    and "rInterpCalls (rViewObjectByName n t) = rInterpCalls t"
  using assms by (auto simp add: rViewObjectByName_def record_get_def)

lemma bad_name_rejected:
  "\<not> py_valid_name ''bad name!''" "\<not> r_valid_name ''bad name!''"
  by (simp_all add: py_valid_name_def r_valid_name_def word_char_def)

text \<open>
  C5. The claim holds for the Python flavor and for every name of the R flavor that
  fails the pattern or is neither a viewable data frame nor a property name of
  \<^verbatim>\<open>Object.prototype\<close> (the four lemmas above). It fails in the R flavor for a name such
  as \<open>constructor\<close>: the name passes the pattern, no data frame of that name exists, and
  \<^verbatim>\<open>viewableDataFrames[name]\<close> is the inherited constructor function, which is truthy, so
  the table state is replaced by \<^verbatim>\<open>{ name }\<close> and no stderr line is written.
\<close>

theorem view_inherited_name_replaces_table:
  "r_valid_name ''constructor''
   \<and> map_of (viewableDataFrames r_with_df) ''constructor'' = None
   \<and> map_of (r_globals (rInterp r_with_df)) ''constructor'' = None
   \<and> rTableData r_with_df = Some (Table ''old'' [] [''a''])
   \<and> rTableData (rViewObjectByName ''constructor'' r_with_df) = Some (NameOnly ''constructor'')
   \<and> rConsoleOutput (rViewObjectByName ''constructor'' r_with_df) = rConsoleOutput r_with_df"
  by (simp add: rViewObjectByName_def r_valid_name_def word_char_def record_get_def
      object_prototype_names_def r_with_df_def r_ready_def rUpdateEnvironment_def
      newViewableDataFrames_def List.map_filter_def r_df_def rObjectToTable_two)

subsection \<open>The representation of an environment entry\<close>

lemma truncate_repr_short: "length r \<le> 100 \<Longrightarrow> truncate_repr r = r"
  by (simp add: truncate_repr_def)

lemma truncate_repr_long: "100 < length r \<Longrightarrow> truncate_repr r = take 100 r @ ''...''"
  by (simp add: truncate_repr_def)

lemma capped_truncate_repr: "capped_repr (truncate_repr r)"
  by (simp add: capped_repr_def truncate_repr_def)

lemma env_script_entry:
  assumes "ne \<in> set (env_script i)"
  shows "\<exists>v. (fst ne, v) \<in> set (globals i) \<and> shown i (fst ne, v)
           \<and> ptype (snd ne) = type_name v \<and> prepr (snd ne) = truncate_repr (full_repr v)"
proof -
  from assms obtain nv where nv: "nv \<in> set (globals i)" "shown i nv" "ne = env_entry nv"
    by (auto simp add: env_script_def)
  have "(fst ne, snd nv) \<in> set (globals i)" "shown i (fst ne, snd nv)"
    using nv by (simp_all add: env_entry_def)
  moreover have "ptype (snd ne) = type_name (snd nv)"
    "prepr (snd ne) = truncate_repr (full_repr (snd nv))"
    using nv by (simp_all add: env_entry_def repr_val_def full_repr_def)
  ultimately show ?thesis by blast
qed

lemma env_script_capped:
  "ne \<in> set (env_script i) \<Longrightarrow> capped_repr (prepr (snd ne))"
  using env_script_entry [of ne i] capped_truncate_repr by auto

lemma runCode_environment_cases:
  "environment (runCode code sem opts s) = environment s
   \<or> (\<exists>i. environment (runCode code sem opts s) = env_script i)"
proof (cases "pyodide s \<and> \<not> isLoading s")
  case True
  then show ?thesis using runCode_environment [of s code sem opts] by auto
next
  case False
  then have "runCode code sem opts s = s" by (auto simp add: runCode_def)
  then show ?thesis by simp
qed

text \<open>
  C7, as the code has it. In the Python flavor the representation of every entry that
  the reflection script builds is the full text when that has at most 100 characters,
  and otherwise its first 100 characters followed by \<open>...\<close>, 103 characters in all; so
  the dots are appended exactly when the text was cut, and every snapshot that
  \<^verbatim>\<open>runCode\<close> leaves has entries of this shape when the one before had. The R flavor
  puts no cap on the text of an entry.
\<close>

theorem python_repr_capped:
  "(\<forall>ne \<in> set (env_script i).
      capped_repr (prepr (snd ne))
      \<and> (\<exists>v. (fst ne, v) \<in> set (globals i) \<and> prepr (snd ne) = truncate_repr (full_repr v)))
   \<and> (length r \<le> 100 \<longrightarrow> truncate_repr r = r)
   \<and> (100 < length r \<longrightarrow> truncate_repr r = take 100 r @ ''...'' \<and> length (truncate_repr r) = 103)
   \<and> ((\<forall>ne \<in> set (environment s). capped_repr (prepr (snd ne))) \<longrightarrow>
        (\<forall>ne \<in> set (environment (runCode code sem opts s)). capped_repr (prepr (snd ne))))"
proof (intro conjI ballI impI)
  fix ne assume "ne \<in> set (env_script i)"
  then show "capped_repr (prepr (snd ne))" by (rule env_script_capped)
next
  fix ne assume "ne \<in> set (env_script i)"
  then show "\<exists>v. (fst ne, v) \<in> set (globals i) \<and> prepr (snd ne) = truncate_repr (full_repr v)"
    using env_script_entry [of ne i] by blast
next
  assume "length r \<le> 100" then show "truncate_repr r = r" by (rule truncate_repr_short)
next
  assume "100 < length r" then show "truncate_repr r = take 100 r @ ''...''"
    by (rule truncate_repr_long)
next
  assume "100 < length r" then show "length (truncate_repr r) = 103"
    by (simp add: truncate_repr_def)
next
  fix ne
  assume inv: "\<forall>ne \<in> set (environment s). capped_repr (prepr (snd ne))"
    and ne: "ne \<in> set (environment (runCode code sem opts s))"
  from runCode_environment_cases [of code sem opts s]
  show "capped_repr (prepr (snd ne))"
  proof
    assume "environment (runCode code sem opts s) = environment s"
    then show ?thesis using inv ne by simp
  next
    assume "\<exists>i. environment (runCode code sem opts s) = env_script i"
    then obtain j where "environment (runCode code sem opts s) = env_script j" ..
    then have "ne \<in> set (env_script j)" using ne by simp
    then show ?thesis by (rule env_script_capped)
  qed
qed

theorem python_repr_capped_witness:
  "map (\<lambda>ne. (fst ne, length (prepr (snd ne)))) (env_script py_scope) = [(''broken'', 7), (''s'', 103)]
   \<and> map (\<lambda>ne. capped_repr (prepr (snd ne))) (env_script py_scope) = [True, True]
   \<and> truncate_repr ''5'' = ''5''
   \<and> truncate_repr (replicate 101 CHR ''a'') = replicate 100 CHR ''a'' @ ''...''"
proof -
  have e: "map (\<lambda>ne. (fst ne, length (prepr (snd ne)))) (env_script py_scope)
             = [(''broken'', 7), (''s'', 103)]"
    by (simp add: env_script_def py_scope_def shown_def vars_to_ignore_def startswith_def
        env_entry_def repr_val_def truncate_repr_def long_str_def)
  have c: "map (\<lambda>ne. capped_repr (prepr (snd ne))) (env_script py_scope) = [True, True]"
    by (simp add: env_script_def py_scope_def shown_def vars_to_ignore_def startswith_def
        env_entry_def repr_val_def truncate_repr_def long_str_def capped_repr_def)
  have t1: "truncate_repr ''5'' = ''5''"
    using python_repr_capped [of py_scope "''5''" py_ready "''x''" one_plot None] by simp
  have t2: "truncate_repr (replicate 101 CHR ''a'') = replicate 100 CHR ''a'' @ ''...''"
    using python_repr_capped [of py_scope "replicate 101 CHR ''a''" py_ready "''x''" one_plot None]
    by simp
  show ?thesis using e c t1 t2 by simp
qed

text \<open>
  C7 as stated fails on both flavors: a Python text of 101 characters is shown with 103
  characters, more than the cap of 100; and the text of an R function with one long
  argument name has 130 characters and no dots at its end.
\<close>

theorem repr_cap_counterexample:
  "length (prepr (snd (env_entry (''s'', long_str)))) = 103
   \<and> length (estr (obj_info long_function)) = 130
   \<and> drop 127 (estr (obj_info long_function)) = ''aa)''"
  by (simp add: env_entry_def repr_val_def truncate_repr_def long_str_def obj_info_def
      long_function_def numeral_2_eq_2)

subsection \<open>What the Python environment snapshot leaves out\<close>






end
